theory Spec2Isabelle
  imports Complex_Main
begin

section \<open>Data model\<close>

text \<open>
  \<open>CountryData\<close> and \<open>TableHeaders\<close> are the two plain-data interfaces that
  \<open>App.tsx\<close> imports from \<open>./data\<close>; their fields are the ones \<open>openEditModal\<close> and the
  initial \<open>useState\<close> of the headers spell out. The field \<open>id\<close> is called \<open>cid\<close> here
  (\<open>id\<close> is HOL's identity function), and the header labels carry the prefix \<open>h_\<close> where
  they would clash with a country field. \<open>status\<close> is a string, as it is at run time: the
  payload of the remote store is parsed JSON, and both \<open>switch\<close> statements over it keep a
  \<open>default\<close> branch.
\<close>

record CountryData =
  cid :: string
  pays :: string
  reseauAncien :: string
  reseauActuel :: string
  itrf :: string
  epoque :: string
  status :: string

record TableHeaders =
  h_country :: string
  h_formerNetwork :: string
  h_currentNetwork :: string
  h_itrf :: string
  h_epoch :: string
  h_status :: string

text \<open>
  The browser's \<open>localStorage\<close>, restricted to the two keys the application uses,
  \<open>geodetic_data\<close> and \<open>table_headers\<close>. A slot holds \<open>JSON.stringify v\<close>; for the plain
  string-valued objects stored here \<open>JSON.parse\<close> gives \<open>v\<close> back, so a slot is modelled by
  the value it serialises. \<open>None\<close> is the \<open>null\<close> that \<open>getItem\<close> returns for a key never
  written.
\<close>

record local_storage =
  geodetic_data :: "CountryData list option"
  table_headers :: "TableHeaders option"

text \<open>
  The three \<open>alert\<close> calls of the application, in the order of the source:
  the validation message of \<open>handleSaveCountry\<close> ("ID and country name are required."),
  the success message of \<open>handleSaveAll\<close>, and its message for a failed server save
  (which says the data were saved locally in the browser).
\<close>

datatype alert = Alert_required | Alert_saved | Alert_server_error

text \<open>The React state of the \<open>App\<close> component, together with the two things its
  handlers act on outside React: \<open>localStorage\<close> and the alerts shown so far.\<close>

record app =
  countries :: "CountryData list"
  headers :: TableHeaders
  isLoading :: bool
  selectedCountry :: "CountryData option"
  editingCountry :: "CountryData option"
  editingHeaders :: TableHeaders
  isEditModalOpen :: bool
  isHeaderModalOpen :: bool
  localStorage :: local_storage
  alerts :: "alert list"

section \<open>Mirroring the state into the local cache\<close>

text \<open>
  The two effects
  \<^verbatim>\<open>useEffect(() => { if (!isLoading) localStorage.setItem('geodetic_data', ...) }, [countries, isLoading])\<close>
  and the same for \<open>table_headers\<close> with \<open>[headers, isLoading]\<close>. React runs an effect after
  the commit in which one of its dependencies changed. Every call of \<open>setCountries\<close> in
  the source passes a freshly built array, so the first effect runs after each of them;
  the model runs the effect at the setter. Within one handler no state that an effect
  reads is set twice, so running it at the setter and running it at the commit give the
  same cache. When \<open>setHeaders\<close> is handed the very object that is already the state,
  React skips the commit; the second effect would then write the value that its last
  run wrote.
\<close>

definition persist_countries :: "app \<Rightarrow> app" where
  "persist_countries s =
     (if \<not> isLoading s
      then s\<lparr>localStorage := (localStorage s)\<lparr>geodetic_data := Some (countries s)\<rparr>\<rparr>
      else s)"

definition persist_headers :: "app \<Rightarrow> app" where
  "persist_headers s =
     (if \<not> isLoading s
      then s\<lparr>localStorage := (localStorage s)\<lparr>table_headers := Some (headers s)\<rparr>\<rparr>
      else s)"

definition setCountries :: "CountryData list \<Rightarrow> app \<Rightarrow> app" where
  "setCountries cs s = persist_countries (s\<lparr>countries := cs\<rparr>)"

definition setHeaders :: "TableHeaders \<Rightarrow> app \<Rightarrow> app" where
  "setHeaders h s = persist_headers (s\<lparr>headers := h\<rparr>)"

definition setIsLoading :: "bool \<Rightarrow> app \<Rightarrow> app" where
  "setIsLoading b s = persist_headers (persist_countries (s\<lparr>isLoading := b\<rparr>))"

section \<open>Editing the collection\<close>

text \<open>\<open>Array.prototype.findIndex\<close>: the index of the first element that satisfies the
  predicate, \<open>-1\<close> when there is none.\<close>

fun findIndex :: "('a \<Rightarrow> bool) \<Rightarrow> 'a list \<Rightarrow> int" where
  "findIndex p [] = - 1"
| "findIndex p (x # xs) =
     (if p x then 0
      else (let i = findIndex p xs in if i > - 1 then i + 1 else - 1))"

text \<open>
  \<open>handleSaveCountry\<close>. \<open>editingCountry\<close> is \<open>null\<close> or the object of the edit form, whose
  fields \<open>openEditModal\<close> always fills (with empty strings for a new country), so
  \<open>!editingCountry?.id\<close> holds for \<open>null\<close> and for the empty string.
\<close>

definition handleSaveCountry :: "app \<Rightarrow> app" where
  "handleSaveCountry s =
     (case editingCountry s of
        None \<Rightarrow> s\<lparr>alerts := alerts s @ [Alert_required]\<rparr>
      | Some e \<Rightarrow>
          if cid e = [] \<or> pays e = []
          then s\<lparr>alerts := alerts s @ [Alert_required]\<rparr>
          else
            (let newCountries = countries s;
                 index = findIndex (\<lambda>c. cid c = cid e) newCountries;
                 newCountries' =
                   (if index > - 1 then newCountries[nat index := e]
                    else newCountries @ [e]);
                 s1 = setCountries newCountries' s;
                 s2 = s1\<lparr>isEditModalOpen := False\<rparr>;
                 s3 = s2\<lparr>editingCountry := None\<rparr>
             in (case selectedCountry s of
                   None \<Rightarrow> s3
                 | Some sel \<Rightarrow>
                     if cid sel = cid e then s3\<lparr>selectedCountry := Some e\<rparr> else s3)))"



section \<open>The remote store\<close>

text \<open>\<open>PersistencePayload\<close>: the JSON object \<open>{ countries, headers }\<close> that travels to and
  from the server and that the server keeps in its data file. \<open>None\<close> is \<open>null\<close> (or a
  missing property), which is what the server writes into a fresh file.\<close>

record payload =
  p_countries :: "CountryData list option"
  p_headers :: "TableHeaders option"

text \<open>
  \<open>server.ts\<close>. \<open>data_file\<close> is the parsed content of \<open>geodetic_data.json\<close>, \<open>None\<close> when
  \<open>readFileSync\<close> or \<open>JSON.parse\<close> throws; \<open>writable\<close> says whether \<open>writeFileSync\<close>
  succeeds. A response is its HTTP status and its JSON body.
\<close>

record server =
  data_file :: "payload option"
  writable :: bool

datatype body = Body_data payload | Body_success | Body_error

type_synonym response = "nat \<times> body"

definition get_api_data :: "server \<Rightarrow> response" where
  "get_api_data sv =
     (case data_file sv of
        Some d \<Rightarrow> (200, Body_data d)
      | None \<Rightarrow> (500, Body_error))"

definition post_api_data :: "payload \<Rightarrow> server \<Rightarrow> server \<times> response" where
  "post_api_data b sv =
     (if writable sv
      then (sv\<lparr>data_file := Some \<lparr>p_countries = p_countries b, p_headers = p_headers b\<rparr>\<rparr>,
            (200, Body_success))
      else (sv, (500, Body_error)))"

text \<open>
  The browser's \<open>fetch\<close> against that server. The promise rejects (\<open>None\<close>) when the
  request does not reach the server; \<open>get_reachable\<close> and \<open>post_reachable\<close> say whether
  the GET and the POST of the operation being run get through. A response with any
  status, \<open>500\<close> included, resolves the promise.
\<close>

record remote =
  get_reachable :: bool
  post_reachable :: bool
  srv :: server

definition fetch_get :: "remote \<Rightarrow> response option" where
  "fetch_get r = (if get_reachable r then Some (get_api_data (srv r)) else None)"

definition fetch_post :: "payload \<Rightarrow> remote \<Rightarrow> remote \<times> response option" where
  "fetch_post b r =
     (if post_reachable r
      then (let (sv, resp) = post_api_data b (srv r) in (r\<lparr>srv := sv\<rparr>, Some resp))
      else (r, None))"

text \<open>\<open>response.ok\<close>: the status is in the range 200 to 299.\<close>

definition ok :: "response \<Rightarrow> bool" where
  "ok resp = (200 \<le> fst resp \<and> fst resp \<le> 299)"

text \<open>\<open>await response.json()\<close>, read as a payload: a body without the properties
  \<open>countries\<close> and \<open>headers\<close> gives \<open>undefined\<close> for both.\<close>

definition json :: "response \<Rightarrow> payload" where
  "json resp =
     (case snd resp of
        Body_data d \<Rightarrow> d
      | Body_success \<Rightarrow> \<lparr>p_countries = None, p_headers = None\<rparr>
      | Body_error \<Rightarrow> \<lparr>p_countries = None, p_headers = None\<rparr>)"

section \<open>Startup hydration and explicit save\<close>

text \<open>The \<open>catch\<close> block of \<open>fetchData\<close>: "Fallback to localStorage if server fails".\<close>

definition localStorage_fallback :: "app \<Rightarrow> app" where
  "localStorage_fallback s =
     (let savedData = geodetic_data (localStorage s);
          savedHeaders = table_headers (localStorage s);
          s1 = (case savedData of Some cs \<Rightarrow> setCountries cs s | None \<Rightarrow> s)
      in (case savedHeaders of Some h \<Rightarrow> setHeaders h s1 | None \<Rightarrow> s1))"

text \<open>
  \<open>fetchData\<close>, run once when the component mounts. \<open>AFRICA_DATA\<close> is the seed collection
  of \<open>./data\<close>, taken as a parameter; \<open>headers s\<close> is the \<open>headers\<close> of the first render,
  which the closure captures. \<open>data.countries\<close> is truthy for every array, the empty one
  included, and falsy for \<open>null\<close>. The response of the seeding POST is not looked at; only
  a rejected promise reaches the \<open>catch\<close> block. \<open>finally\<close> ends the loading phase on
  every path.
\<close>

definition fetchData :: "CountryData list \<Rightarrow> remote \<Rightarrow> app \<Rightarrow> remote \<times> app" where
  "fetchData AFRICA_DATA r s =
     (let (r', s') =
        (case fetch_get r of
           None \<Rightarrow> (r, localStorage_fallback s)
         | Some response \<Rightarrow>
             if ok response
             then
               (let data = json response;
                    adopt_headers =
                      (\<lambda>t. case p_headers data of Some h \<Rightarrow> setHeaders h t | None \<Rightarrow> t)
                in (case p_countries data of
                      Some cs \<Rightarrow> (r, adopt_headers (setCountries cs s))
                    | None \<Rightarrow>
                        (case fetch_post
                                \<lparr>p_countries = Some AFRICA_DATA, p_headers = Some (headers s)\<rparr> r of
                           (r1, Some seeded) \<Rightarrow> (r1, adopt_headers s)
                         | (r1, None) \<Rightarrow> (r1, localStorage_fallback s))))
             else (r, s))
      in (r', setIsLoading False s'))"

text \<open>The state of the first render: the seed data, the default headers given to
  \<open>useState\<close>, \<open>isLoading = true\<close>, nothing selected or edited, and whatever the browser's
  \<open>localStorage\<close> holds from earlier sessions.\<close>

definition initial_app :: "CountryData list \<Rightarrow> TableHeaders \<Rightarrow> local_storage \<Rightarrow> app" where
  "initial_app AFRICA_DATA default_headers ls =
     \<lparr>countries = AFRICA_DATA, headers = default_headers, isLoading = True,
      selectedCountry = None, editingCountry = None, editingHeaders = default_headers,
      isEditModalOpen = False, isHeaderModalOpen = False,
      localStorage = ls, alerts = []\<rparr>"

text \<open>\<open>localStorage.setItem\<close> for the two keys, as \<open>handleSaveAll\<close> calls it directly.\<close>

definition setItem_geodetic_data :: "CountryData list \<Rightarrow> app \<Rightarrow> app" where
  "setItem_geodetic_data cs s = s\<lparr>localStorage := (localStorage s)\<lparr>geodetic_data := Some cs\<rparr>\<rparr>"

definition setItem_table_headers :: "TableHeaders \<Rightarrow> app \<Rightarrow> app" where
  "setItem_table_headers h s = s\<lparr>localStorage := (localStorage s)\<lparr>table_headers := Some h\<rparr>\<rparr>"

definition alert :: "alert \<Rightarrow> app \<Rightarrow> app" where
  "alert a s = s\<lparr>alerts := alerts s @ [a]\<rparr>"

text \<open>
  \<open>handleSaveAll\<close>. A response that is not \<open>ok\<close> throws inside the \<open>try\<close> block, so it
  reaches the same \<open>catch\<close> block as a rejected promise.
\<close>

definition handleSaveAll :: "remote \<Rightarrow> app \<Rightarrow> remote \<times> app" where
  "handleSaveAll r s =
     (let (r', result) =
            fetch_post \<lparr>p_countries = Some (countries s), p_headers = Some (headers s)\<rparr> r;
          catch = alert Alert_server_error
                    (setItem_table_headers (headers s) (setItem_geodetic_data (countries s) s))
      in (case result of
            Some response \<Rightarrow>
              if ok response
              then (r', alert Alert_saved
                          (setItem_table_headers (headers s)
                             (setItem_geodetic_data (countries s) s)))
              else (r', catch)
          | None \<Rightarrow> (r', catch)))"

section \<open>Joining the topology with the records\<close>

text \<open>
  A feature of the fetched GeoJSON document: its identifier, \<open>properties.name\<close> and its
  geometry, whose representation \<open>'g\<close> the join never looks into. The spread
  \<open>{...f, id: ...}\<close> is a record update: every other field is carried over.
\<close>

record 'g feature =
  fid :: string
  fname :: string
  geometry :: 'g

record 'g geo =
  features :: "'g feature list"

text \<open>The alias table \<open>idMap\<close> of the topology effect, entry by entry.\<close>

definition idMap :: "(string \<times> string) list" where
  "idMap =
     [(''SDS'', ''SSD''), (''SS'', ''SSD''), (''SZL'', ''SWZ''), (''ZAR'', ''COD''),
      (''DRC'', ''COD''), (''KM'', ''COM''), (''MU'', ''MUS''), (''SC'', ''SYC''),
      (''CV'', ''CPV''), (''ST'', ''STP''), (''REU'', ''REU''), (''MYT'', ''COM'')]"

text \<open>\<open>idMap[f.id] || f.id\<close>: the table's entry when the key is present and the entry is
  truthy (a non-empty string), the identifier itself otherwise. The keys are the twelve
  own properties of the object literal; the property names that every JavaScript object
  inherits are not country codes and are not modelled.\<close>

definition normalize_id :: "string \<Rightarrow> string" where
  "normalize_id i =
     (case map_of idMap i of
        Some c \<Rightarrow> if c = [] then i else c
      | None \<Rightarrow> i)"

text \<open>The value handed to \<open>setGeoData\<close>: \<open>{...geoJson, features: filter(...).map(...)}\<close>.\<close>

definition africa :: "CountryData list \<Rightarrow> 'g geo \<Rightarrow> 'g geo" where
  "africa data geoJson =
     (let africanIsoCodes = map cid data
      in geoJson\<lparr>features :=
           map (\<lambda>f. f\<lparr>fid := normalize_id (fid f)\<rparr>)
             (filter (\<lambda>f. normalize_id (fid f) \<in> set africanIsoCodes) (features geoJson))\<rparr>)"

section \<open>Drawing the map\<close>

text \<open>
  The functions of the d3 library that the render effect calls, taken as parameters:
  \<open>geoMercator().fitExtent(extent, geoData)\<close> builds a projection \<open>'p\<close>; \<open>project\<close> applies
  it to a longitude/latitude pair; \<open>path_d\<close> is \<open>geoPath().projection(projection)\<close> applied
  to a feature, and \<open>centroid\<close> is \<open>path.centroid\<close>.
\<close>

record ('g, 'p) d3 =
  fitExtent :: "(real \<times> real) \<times> (real \<times> real) \<Rightarrow> 'g geo \<Rightarrow> 'p"
  project :: "'p \<Rightarrow> real \<times> real \<Rightarrow> real \<times> real"
  path_d :: "'p \<Rightarrow> 'g feature \<Rightarrow> string"
  centroid :: "'p \<Rightarrow> 'g feature \<Rightarrow> real \<times> real"

text \<open>The fill of a polygon: the callback of \<open>.attr('fill', ...)\<close> on the paths.\<close>

definition path_fill :: "CountryData list \<Rightarrow> string \<Rightarrow> string" where
  "path_fill data i =
     (case find (\<lambda>c. cid c = i) data of
        None \<Rightarrow> ''#f1f5f9''
      | Some country \<Rightarrow>
          if status country = ''COMPLET'' then ''#93c5fd''
          else if status country = ''SANS_EPOQUE'' then ''#fde047''
          else if status country = ''MANQUE_INFO'' then ''#fca5a5''
          else if status country = ''CANEVA_LOCAL'' then ''#c084fc''
          else if status country = ''ACTIF'' then ''#cbd5e1''
          else ''#f1f5f9'')"

text \<open>The fill of an island circle: the callback of \<open>.attr('fill', ...)\<close> on the circles,
  which the source writes out a second time.\<close>

definition circle_fill :: "CountryData list \<Rightarrow> string \<Rightarrow> string" where
  "circle_fill data i =
     (case find (\<lambda>c. cid c = i) data of
        None \<Rightarrow> ''#f1f5f9''
      | Some country \<Rightarrow>
          if status country = ''COMPLET'' then ''#93c5fd''
          else if status country = ''SANS_EPOQUE'' then ''#fde047''
          else if status country = ''MANQUE_INFO'' then ''#fca5a5''
          else if status country = ''CANEVA_LOCAL'' then ''#c084fc''
          else if status country = ''ACTIF'' then ''#cbd5e1''
          else ''#f1f5f9'')"

text \<open>\<open>manualIslands\<close>: identifier, name, and the literal \<open>[longitude, latitude]\<close>.\<close>

record island =
  i_id :: string
  i_name :: string
  coords :: "real \<times> real"

definition manualIslands :: "island list" where
  "manualIslands =
     [\<lparr>i_id = ''MUS'', i_name = ''Mauritius'', coords = (57.5522, - 20.3484)\<rparr>,
      \<lparr>i_id = ''SYC'', i_name = ''Seychelles'', coords = (55.4920, - 4.6796)\<rparr>,
      \<lparr>i_id = ''COM'', i_name = ''Comoros'', coords = (43.3333, - 11.6450)\<rparr>,
      \<lparr>i_id = ''CPV'', i_name = ''Cape Verde'', coords = (- 23.0418, 16.0020)\<rparr>,
      \<lparr>i_id = ''STP'', i_name = ''Sao Tome and Principe'', coords = (6.7333, 0.1864)\<rparr>]"

text \<open>
  What the effect appends to the SVG. A label's text is kept as its parts: the
  identifier that \<open>getEmojiFlag\<close> is applied to (when there is one) and the name after it.
\<close>

datatype label = Flag_name string string | Name string

record path_el =
  p_d :: string
  p_selected :: bool
  p_fill :: string
  p_title :: string

record text_el =
  t_translate :: "real \<times> real"
  t_font_size :: string
  t_text :: label

record marker_el =
  m_id :: string
  m_cx :: real
  m_cy :: real
  m_r :: real
  m_fill :: string
  m_selected :: bool
  m_text_x :: real
  m_text_y :: real
  m_font_size :: string
  m_text :: label

record svg =
  paths :: "path_el list"
  texts :: "text_el list"
  island_markers :: "marker_el list"

definition empty_svg :: svg where
  "empty_svg = \<lparr>paths = [], texts = [], island_markers = []\<rparr>"

text \<open>
  The render effect of \<open>AfricaMap\<close>, as a function from the content of the SVG before
  the effect to its content after it. \<open>geoData\<close> is \<open>null\<close> until the topology has been
  fetched and joined; \<open>svgRef\<close> is \<open>None\<close> when \<open>svgRef.current\<close> is \<open>null\<close> and the client
  size of the element otherwise; \<open>dimensions\<close> is the size last reported by the
  \<open>ResizeObserver\<close>, \<open>(0, 0)\<close> before its first report. \<open>a || b\<close> on numbers is \<open>b\<close> when
  \<open>a\<close> is \<open>0\<close>.
\<close>

definition render_effect ::
  "('g, 'p) d3 \<Rightarrow> 'g geo option \<Rightarrow> (real \<times> real) option \<Rightarrow> real \<times> real \<Rightarrow>
     string option \<Rightarrow> CountryData list \<Rightarrow> svg \<Rightarrow> svg" where
  "render_effect lib geoData svgRef dimensions selectedCountryId data before =
     (case geoData of
        None \<Rightarrow> before
      | Some gd \<Rightarrow>
          (case svgRef of
             None \<Rightarrow> before
           | Some client \<Rightarrow>
               (let width = (if fst dimensions \<noteq> 0 then fst dimensions else fst client);
                    height = (if snd dimensions \<noteq> 0 then snd dimensions else snd client)
                in if width = 0 \<or> height = 0 then empty_svg
                   else
                     (let projection =
                            fitExtent lib ((10, 10), (width - 10, height - 10)) gd
                      in \<lparr>paths =
                            map (\<lambda>f. \<lparr>p_d = path_d lib projection f,
                                      p_selected = (selectedCountryId = Some (fid f)),
                                      p_fill = path_fill data (fid f),
                                      p_title = fname f\<rparr>)
                              (features gd),
                          texts =
                            map (\<lambda>f. \<lparr>t_translate = centroid lib projection f,
                                      t_font_size = (if width < 500 then ''6px'' else ''8px''),
                                      t_text =
                                        (case find (\<lambda>c. cid c = fid f) data of
                                           Some country \<Rightarrow> Flag_name (cid country) (pays country)
                                         | None \<Rightarrow> Name (fname f))\<rparr>)
                              (features gd),
                          island_markers =
                            map (\<lambda>m. \<lparr>m_id = i_id m,
                                      m_cx = fst (project lib projection (coords m)),
                                      m_cy = snd (project lib projection (coords m)),
                                      m_r = 5,
                                      m_fill = circle_fill data (i_id m),
                                      m_selected = (selectedCountryId = Some (i_id m)),
                                      m_text_x = fst (project lib projection (coords m)),
                                      m_text_y = snd (project lib projection (coords m)) - 8,
                                      m_font_size =
                                        (if width < 500 then ''5px'' else ''7px''),
                                      m_text = Flag_name (i_id m) (i_name m)\<rparr>)
                              manualIslands\<rparr>))))"

section \<open>The statistics overlay\<close>







section \<open>User actions and concrete inputs\<close>




text \<open>Sample records, header labels and a stand-in for the d3 library, on which the
  definitions above are evaluated below.\<close>

definition sample_country :: "string \<Rightarrow> string \<Rightarrow> string \<Rightarrow> CountryData" where
  "sample_country i n st =
     \<lparr>cid = i, pays = n, reseauAncien = ''local datum'', reseauActuel = ''CORS'',
      itrf = ''ITRF2014'', epoque = ''2010.0'', status = st\<rparr>"

definition sample_headers :: TableHeaders where
  "sample_headers =
     \<lparr>h_country = ''Country'', h_formerNetwork = ''Former Network'',
      h_currentNetwork = ''Current Network'', h_itrf = ''ITRF'', h_epoch = ''Epoch'',
      h_status = ''Status''\<rparr>"

definition sample_d3 :: "(nat, unit) d3" where
  "sample_d3 =
     \<lparr>fitExtent = (\<lambda>extent gd. ()), project = (\<lambda>p c. c),
      path_d = (\<lambda>p f. fid f), centroid = (\<lambda>p f. (0, 0))\<rparr>"



section \<open>Facts about \<open>findIndex\<close> and keyed lists\<close>

lemma findIndex_ge: "- 1 \<le> findIndex p xs"
  by (induction xs) (auto simp: Let_def)

lemma findIndex_absent: "(findIndex p xs = - 1) = (\<forall>x\<in>set xs. \<not> p x)"
proof (induction xs)
  case Nil
  show ?case by simp
next
  case (Cons x xs)
  have "- 1 \<le> findIndex p xs" by (rule findIndex_ge)
  with Cons show ?case by (auto simp: Let_def)
qed

lemma findIndex_found:
  "- 1 < findIndex p xs \<Longrightarrow>
     nat (findIndex p xs) < length xs \<and> p (xs ! nat (findIndex p xs))"
proof (induction xs)
  case Nil
  then show ?case by simp
next
  case (Cons x xs)
  show ?case
  proof (cases "p x")
    case True
    then show ?thesis by simp
  next
    case False
    with Cons.prems have pos: "- 1 < findIndex p xs"
      by (simp add: Let_def split: if_splits)
    with Cons.IH have ih: "nat (findIndex p xs) < length xs \<and> p (xs ! nat (findIndex p xs))"
      by simp
    from pos have "nat (findIndex p xs + 1) = Suc (nat (findIndex p xs))" by simp
    with False pos ih show ?thesis by (simp add: Let_def)
  qed
qed

lemma filter_key_distinct:
  "distinct (map f ys) \<Longrightarrow> i < length ys \<Longrightarrow> filter (\<lambda>c. f c = f (ys ! i)) ys = [ys ! i]"
proof (induction ys arbitrary: i)
  case Nil
  then show ?case by simp
next
  case (Cons y ys)
  show ?case
  proof (cases i)
    case 0
    from Cons.prems have "f y \<notin> f ` set ys" by simp
    then have "\<forall>c\<in>set ys. f c \<noteq> f y" by (metis imageI)
    then have "filter (\<lambda>c. f c = f y) ys = []" by (simp add: filter_empty_conv)
    with 0 show ?thesis by simp
  next
    case (Suc j)
    with Cons.prems have j: "j < length ys" and dist: "distinct (map f ys)" by simp_all
    from Cons.prems j have "f y \<noteq> f (ys ! j)" by auto
    with Cons.IH [OF dist j] Suc show ?thesis by simp
  qed
qed

lemma filter_key_update:
  assumes "distinct (map f xs)" and "i < length xs" and "f (xs ! i) = f e"
  shows "filter (\<lambda>c. f c = f e) (xs[i := e]) = [e]"
proof -
  have "map f (xs[i := e]) = (map f xs)[i := f (xs ! i)]"
    using assms(3) by (simp add: map_update)
  also have "\<dots> = map f xs" using assms(2) by (simp add: list_update_same_conv)
  finally have dist: "distinct (map f (xs[i := e]))" using assms(1) by simp
  have len: "i < length (xs[i := e])" using assms(2) by simp
  from filter_key_distinct [OF dist len] assms(2) show ?thesis by simp
qed


lemma find_filter_other: "find (\<lambda>c. f c = k) (filter (\<lambda>c. f c \<noteq> k) xs) = None"
  by (induction xs) simp_all

section \<open>Upsert\<close>

lemma countries_setCountries: "countries (setCountries cs s) = cs"
  by (simp add: setCountries_def persist_countries_def)

lemma countries_handleSaveCountry:
  assumes "editingCountry s = Some e" and "cid e \<noteq> []" and "pays e \<noteq> []"
  shows "countries (handleSaveCountry s) =
           (if - 1 < findIndex (\<lambda>c. cid c = cid e) (countries s)
            then (countries s)[nat (findIndex (\<lambda>c. cid c = cid e) (countries s)) := e]
            else countries s @ [e])"
  using assms
  by (simp add: handleSaveCountry_def Let_def countries_setCountries split: option.splits)

text \<open>
  Claim C4. Let the ids of the collection be unique and let the edit form hold a record
  \<open>e\<close> with a non-empty id and a non-empty name. Then \<open>handleSaveCountry\<close> writes \<open>e\<close> over
  the entry that has the id of \<open>e\<close> when there is one, and appends \<open>e\<close> when there is none;
  afterwards the records with the id of \<open>e\<close> are exactly \<open>[e]\<close>.
\<close>

theorem upsert_then_query:
  assumes "distinct (map cid (countries s))"
    and "editingCountry s = Some e" and "cid e \<noteq> []" and "pays e \<noteq> []"
  shows "((\<exists>c\<in>set (countries s). cid c = cid e) \<longrightarrow>
            (\<exists>i<length (countries s). cid (countries s ! i) = cid e \<and>
               countries (handleSaveCountry s) = (countries s)[i := e]))
       \<and> ((\<forall>c\<in>set (countries s). cid c \<noteq> cid e) \<longrightarrow>
            countries (handleSaveCountry s) = countries s @ [e])
       \<and> filter (\<lambda>c. cid c = cid e) (countries (handleSaveCountry s)) = [e]"
proof (cases "- 1 < findIndex (\<lambda>c. cid c = cid e) (countries s)")
  case True
  let ?i = "nat (findIndex (\<lambda>c. cid c = cid e) (countries s))"
  from findIndex_found [OF True]
  have i: "?i < length (countries s)" and key: "cid (countries s ! ?i) = cid e" by simp_all
  have new: "countries (handleSaveCountry s) = (countries s)[?i := e]"
    using True assms by (simp add: countries_handleSaveCountry)
  have "filter (\<lambda>c. cid c = cid e) ((countries s)[?i := e]) = [e]"
    by (rule filter_key_update [OF assms(1) i key])
  moreover have "\<exists>c\<in>set (countries s). cid c = cid e"
    using i key nth_mem by blast
  ultimately show ?thesis using i key new by auto
next
  case False
  with findIndex_ge [of "\<lambda>c. cid c = cid e" "countries s"]
  have "findIndex (\<lambda>c. cid c = cid e) (countries s) = - 1" by simp
  then have none: "\<forall>c\<in>set (countries s). cid c \<noteq> cid e"
    by (simp add: findIndex_absent)
  have new: "countries (handleSaveCountry s) = countries s @ [e]"
    using False assms by (simp add: countries_handleSaveCountry)
  from none have "filter (\<lambda>c. cid c = cid e) (countries s) = []"
    by (simp add: filter_empty_conv)
  with none new show ?thesis by auto
qed

text \<open>The example of the specification: a store holding Senegal with status
  \<open>MANQUE_INFO\<close> (and the Comoros), and an edit that sets Senegal to \<open>COMPLET\<close>.\<close>

theorem upsert_then_query_witness:
  "countries (handleSaveCountry
      ((initial_app [sample_country ''SEN'' ''Senegal'' ''MANQUE_INFO'',
                     sample_country ''COM'' ''Comoros'' ''ACTIF'']
          sample_headers \<lparr>geodetic_data = None, table_headers = None\<rparr>)
       \<lparr>editingCountry := Some (sample_country ''SEN'' ''Senegal'' ''COMPLET'')\<rparr>))
     = [sample_country ''SEN'' ''Senegal'' ''COMPLET'',
        sample_country ''COM'' ''Comoros'' ''ACTIF'']
   \<and> filter (\<lambda>c. cid c = ''SEN'')
       (countries (handleSaveCountry
          ((initial_app [sample_country ''SEN'' ''Senegal'' ''MANQUE_INFO'',
                         sample_country ''COM'' ''Comoros'' ''ACTIF'']
              sample_headers \<lparr>geodetic_data = None, table_headers = None\<rparr>)
           \<lparr>editingCountry := Some (sample_country ''SEN'' ''Senegal'' ''COMPLET'')\<rparr>)))
     = [sample_country ''SEN'' ''Senegal'' ''COMPLET'']"
proof -
  let ?e = "sample_country ''SEN'' ''Senegal'' ''COMPLET''"
  let ?s = "(initial_app [sample_country ''SEN'' ''Senegal'' ''MANQUE_INFO'',
                          sample_country ''COM'' ''Comoros'' ''ACTIF'']
               sample_headers \<lparr>geodetic_data = None, table_headers = None\<rparr>)
            \<lparr>editingCountry := Some ?e\<rparr>"
  have old: "countries ?s = [sample_country ''SEN'' ''Senegal'' ''MANQUE_INFO'',
                            sample_country ''COM'' ''Comoros'' ''ACTIF'']"
    by (simp add: initial_app_def)
  have ids: "cid ?e = ''SEN''" by (simp add: sample_country_def)
  have h1: "distinct (map cid (countries ?s))"
    by (simp add: initial_app_def sample_country_def)
  have h2: "editingCountry ?s = Some ?e" by simp
  have h3: "cid ?e \<noteq> []" and h4: "pays ?e \<noteq> []" by (simp_all add: sample_country_def)
  have present: "\<exists>c\<in>set (countries ?s). cid c = cid ?e"
    by (simp add: initial_app_def sample_country_def)
  from upsert_then_query [OF h1 h2 h3 h4] present
  obtain i where i: "i < length (countries ?s)" and key: "cid (countries ?s ! i) = cid ?e"
    and new: "countries (handleSaveCountry ?s) = (countries ?s)[i := ?e]"
    and q: "filter (\<lambda>c. cid c = cid ?e) (countries (handleSaveCountry ?s)) = [?e]"
    by blast
  from i have "i = 0 \<or> i = 1" by (auto simp: initial_app_def)
  with key have "i = 0" by (auto simp: initial_app_def sample_country_def)
  with new q ids show ?thesis by (simp add: old)
qed

text \<open>
  Claim C5. When the record of the edit form has an empty id or an empty name,
  \<open>handleSaveCountry\<close> only shows the validation alert: the collection, the headers and
  the local cache are unchanged, and so is every other part of the state.
\<close>

theorem upsert_invalid_rejected:
  assumes "editingCountry s = Some e" and "cid e = [] \<or> pays e = []"
  shows "handleSaveCountry s = s\<lparr>alerts := alerts s @ [Alert_required]\<rparr>
       \<and> countries (handleSaveCountry s) = countries s
       \<and> headers (handleSaveCountry s) = headers s
       \<and> localStorage (handleSaveCountry s) = localStorage s"
  using assms by (auto simp: handleSaveCountry_def)

text \<open>A record with an empty id, offered to a store that holds Senegal.\<close>

theorem upsert_invalid_rejected_witness:
  "countries (handleSaveCountry
      ((initial_app [sample_country ''SEN'' ''Senegal'' ''MANQUE_INFO'']
          sample_headers \<lparr>geodetic_data = None, table_headers = None\<rparr>)
       \<lparr>editingCountry := Some (sample_country [] ''Togo'' ''COMPLET'')\<rparr>))
     = [sample_country ''SEN'' ''Senegal'' ''MANQUE_INFO'']
   \<and> alerts (handleSaveCountry
      ((initial_app [sample_country ''SEN'' ''Senegal'' ''MANQUE_INFO'']
          sample_headers \<lparr>geodetic_data = None, table_headers = None\<rparr>)
       \<lparr>editingCountry := Some (sample_country [] ''Togo'' ''COMPLET'')\<rparr>))
     = [Alert_required]"
proof -
  let ?e = "sample_country [] ''Togo'' ''COMPLET''"
  let ?s = "(initial_app [sample_country ''SEN'' ''Senegal'' ''MANQUE_INFO'']
               sample_headers \<lparr>geodetic_data = None, table_headers = None\<rparr>)
            \<lparr>editingCountry := Some ?e\<rparr>"
  have h1: "editingCountry ?s = Some ?e" by simp
  have h2: "cid ?e = [] \<or> pays ?e = []" by (simp add: sample_country_def)
  from upsert_invalid_rejected [OF h1 h2]
  have "handleSaveCountry ?s = ?s\<lparr>alerts := alerts ?s @ [Alert_required]\<rparr>" by simp
  then show ?thesis by (simp add: initial_app_def)
qed

section \<open>Startup hydration\<close>

text \<open>The tiers of the startup sequence, each on the path of \<open>fetchData\<close> that reaches it:
  a populated remote store is adopted; an empty one is seeded with the defaults, which
  stay in memory; a rejected request falls back to the cache, or to the defaults when
  the cache is empty; and a response that is not \<open>ok\<close> leaves the defaults in place
  without looking at the cache.\<close>

lemma hydration_remote_populated:
  assumes "get_reachable r" and "data_file (srv r) = Some dt" and "p_countries dt = Some cs"
  shows "countries (snd (fetchData AFRICA_DATA r s)) = cs"
  using assms
  by (simp add: fetchData_def fetch_get_def get_api_data_def ok_def json_def Let_def
      setIsLoading_def persist_countries_def persist_headers_def setCountries_def
      setHeaders_def split: option.splits)

lemma hydration_remote_empty:
  assumes "get_reachable r" and "post_reachable r" and "writable (srv r)"
    and "data_file (srv r) = Some dt" and "p_countries dt = None"
  shows "countries (snd (fetchData AFRICA_DATA r s)) = countries s
       \<and> data_file (srv (fst (fetchData AFRICA_DATA r s)))
           = Some \<lparr>p_countries = Some AFRICA_DATA, p_headers = Some (headers s)\<rparr>"
  using assms
  by (simp add: fetchData_def fetch_get_def fetch_post_def post_api_data_def
      get_api_data_def ok_def json_def Let_def
      setIsLoading_def persist_countries_def persist_headers_def setCountries_def
      setHeaders_def split: option.splits)

lemma hydration_fetch_rejected:
  assumes "\<not> get_reachable r"
  shows "countries (snd (fetchData AFRICA_DATA r s))
           = (case geodetic_data (localStorage s) of Some cs \<Rightarrow> cs | None \<Rightarrow> countries s)"
  using assms
  by (simp add: fetchData_def fetch_get_def localStorage_fallback_def Let_def
      setIsLoading_def persist_countries_def persist_headers_def setCountries_def
      setHeaders_def split: option.splits)

lemma hydration_http_error:
  assumes "get_reachable r" and "data_file (srv r) = None"
  shows "countries (snd (fetchData AFRICA_DATA r s)) = countries s"
  using assms
  by (simp add: fetchData_def fetch_get_def get_api_data_def ok_def
      setIsLoading_def persist_countries_def persist_headers_def)

text \<open>
  Claim C1, at a failed remote read with a populated cache. The server cannot read its
  data file, so \<open>GET /api/data\<close> answers with status 500; the cache holds Senegal with
  status \<open>COMPLET\<close> from an earlier session, and the built-in default is Senegal with
  status \<open>MANQUE_INFO\<close>. After \<open>fetchData\<close> the in-memory collection is the default, not
  the cached one, and the mirror effect has written the default over the cached
  collection.
\<close>

theorem hydration_http_500_ignores_cache:
  "fetch_get \<lparr>get_reachable = True, post_reachable = True,
              srv = \<lparr>data_file = None, writable = True\<rparr>\<rparr> = Some (500, Body_error)
   \<and> countries (snd (fetchData [sample_country ''SEN'' ''Senegal'' ''MANQUE_INFO'']
        \<lparr>get_reachable = True, post_reachable = True,
         srv = \<lparr>data_file = None, writable = True\<rparr>\<rparr>
        (initial_app [sample_country ''SEN'' ''Senegal'' ''MANQUE_INFO''] sample_headers
           \<lparr>geodetic_data = Some [sample_country ''SEN'' ''Senegal'' ''COMPLET''],
            table_headers = Some sample_headers\<rparr>)))
     = [sample_country ''SEN'' ''Senegal'' ''MANQUE_INFO'']
   \<and> [sample_country ''SEN'' ''Senegal'' ''MANQUE_INFO'']
       \<noteq> [sample_country ''SEN'' ''Senegal'' ''COMPLET'']
   \<and> geodetic_data (localStorage (snd (fetchData [sample_country ''SEN'' ''Senegal'' ''MANQUE_INFO'']
        \<lparr>get_reachable = True, post_reachable = True,
         srv = \<lparr>data_file = None, writable = True\<rparr>\<rparr>
        (initial_app [sample_country ''SEN'' ''Senegal'' ''MANQUE_INFO''] sample_headers
           \<lparr>geodetic_data = Some [sample_country ''SEN'' ''Senegal'' ''COMPLET''],
            table_headers = Some sample_headers\<rparr>))))
     = Some [sample_country ''SEN'' ''Senegal'' ''MANQUE_INFO'']"
  by (simp add: fetchData_def fetch_get_def get_api_data_def ok_def initial_app_def
      setIsLoading_def persist_countries_def persist_headers_def sample_country_def)

section \<open>Explicit save\<close>

lemma fetch_post_cases:
  "fetch_post b r =
     (if post_reachable r
      then (if writable (srv r)
            then (r\<lparr>srv := (srv r)\<lparr>data_file := Some b\<rparr>\<rparr>, Some (200, Body_success))
            else (r, Some (500, Body_error)))
      else (r, None))"
  by (cases b) (simp add: fetch_post_def post_api_data_def)

text \<open>
  Claim C2. After \<open>handleSaveAll\<close> the local cache holds the collection and the headers
  that were sent, whatever happened to the request; the in-memory state is unchanged.
  The alert shown is the success message exactly when the POST reached the server and
  the server answered 200, in which case the server's file holds the payload; when the
  request was rejected or the server answered 500 the alert is the error message, which
  is a different one, and the server's file is as before.
\<close>

theorem save_all_refreshes_cache:
  "localStorage (snd (handleSaveAll r s))
      = \<lparr>geodetic_data = Some (countries s), table_headers = Some (headers s)\<rparr>
   \<and> countries (snd (handleSaveAll r s)) = countries s
   \<and> headers (snd (handleSaveAll r s)) = headers s
   \<and> alerts (snd (handleSaveAll r s))
      = alerts s @ [if post_reachable r \<and> writable (srv r) then Alert_saved
                    else Alert_server_error]
   \<and> data_file (srv (fst (handleSaveAll r s)))
      = (if post_reachable r \<and> writable (srv r)
         then Some \<lparr>p_countries = Some (countries s), p_headers = Some (headers s)\<rparr>
         else data_file (srv r))
   \<and> Alert_saved \<noteq> Alert_server_error"
  by (simp add: handleSaveAll_def fetch_post_cases ok_def alert_def
      setItem_geodetic_data_def setItem_table_headers_def)

text \<open>A save against an unreachable server: the failure is shown, and the cache holds
  the payload that was to be saved.\<close>

theorem save_all_refreshes_cache_witness:
  "localStorage (snd (handleSaveAll
       \<lparr>get_reachable = False, post_reachable = False,
        srv = \<lparr>data_file = None, writable = True\<rparr>\<rparr>
       (initial_app [sample_country ''SEN'' ''Senegal'' ''COMPLET''] sample_headers
          \<lparr>geodetic_data = None, table_headers = None\<rparr>)))
     = \<lparr>geodetic_data = Some [sample_country ''SEN'' ''Senegal'' ''COMPLET''],
        table_headers = Some sample_headers\<rparr>
   \<and> alerts (snd (handleSaveAll
       \<lparr>get_reachable = False, post_reachable = False,
        srv = \<lparr>data_file = None, writable = True\<rparr>\<rparr>
       (initial_app [sample_country ''SEN'' ''Senegal'' ''COMPLET''] sample_headers
          \<lparr>geodetic_data = None, table_headers = None\<rparr>)))
     = [Alert_server_error]"
  using save_all_refreshes_cache
    [of "\<lparr>get_reachable = False, post_reachable = False,
          srv = \<lparr>data_file = None, writable = True\<rparr>\<rparr>"
        "initial_app [sample_country ''SEN'' ''Senegal'' ''COMPLET''] sample_headers
           \<lparr>geodetic_data = None, table_headers = None\<rparr>"]
  by (simp add: initial_app_def)

section \<open>The cache mirrors every mutation\<close>













section \<open>The geographic join\<close>



lemma features_africa:
  "features (africa data geoJson) =
     map (\<lambda>f. f\<lparr>fid := normalize_id (fid f)\<rparr>)
       (filter (\<lambda>f. normalize_id (fid f) \<in> cid ` set data) (features geoJson))"
  by (simp add: africa_def)



text \<open>
  Claim C10. \<open>KM\<close> and \<open>MYT\<close> are different identifiers with the same normalized
  identifier \<open>COM\<close>. For a topology made of a feature with identifier \<open>KM\<close> and one with
  identifier \<open>MYT\<close>, of different geometry, and a collection with a record \<open>COM\<close>, the join
  keeps both: the render set holds two different features that carry the identifier
  \<open>COM\<close>.
\<close>

theorem aliases_collide_without_dedup:
  assumes "''COM'' \<in> cid ` set data" and "fid f1 = ''KM''" and "fid f2 = ''MYT''"
    and "geometry f1 \<noteq> geometry f2"
  shows "normalize_id ''KM'' = ''COM'' \<and> normalize_id ''MYT'' = ''COM'' \<and> ''KM'' \<noteq> ''MYT''
       \<and> features (africa data \<lparr>features = [f1, f2]\<rparr>)
           = [f1\<lparr>fid := ''COM''\<rparr>, f2\<lparr>fid := ''COM''\<rparr>]
       \<and> f1\<lparr>fid := ''COM''\<rparr> \<noteq> f2\<lparr>fid := ''COM''\<rparr>
       \<and> fid (f1\<lparr>fid := ''COM''\<rparr>) = fid (f2\<lparr>fid := ''COM''\<rparr>)"
proof -
  have km: "normalize_id ''KM'' = ''COM''" and myt: "normalize_id ''MYT'' = ''COM''"
    by (simp_all add: normalize_id_def idMap_def)
  have "geometry (f1\<lparr>fid := ''COM''\<rparr>) \<noteq> geometry (f2\<lparr>fid := ''COM''\<rparr>)"
    using assms(4) by simp
  then have "f1\<lparr>fid := ''COM''\<rparr> \<noteq> f2\<lparr>fid := ''COM''\<rparr>" by metis
  with km myt assms(1-3) show ?thesis by (simp add: features_africa)
qed

text \<open>The Comoros and Mayotte, as a topology source lists them.\<close>

theorem aliases_collide_without_dedup_witness:
  "features (africa [sample_country ''COM'' ''Comoros'' ''MANQUE_INFO'']
      \<lparr>features = [\<lparr>fid = ''KM'', fname = ''Comoros'', geometry = 1::nat\<rparr>,
                   \<lparr>fid = ''MYT'', fname = ''Mayotte'', geometry = 2\<rparr>]\<rparr>)
     = [\<lparr>fid = ''COM'', fname = ''Comoros'', geometry = 1\<rparr>,
        \<lparr>fid = ''COM'', fname = ''Mayotte'', geometry = 2\<rparr>]"
proof -
  let ?f1 = "\<lparr>fid = ''KM'', fname = ''Comoros'', geometry = 1::nat\<rparr>"
  let ?f2 = "\<lparr>fid = ''MYT'', fname = ''Mayotte'', geometry = 2::nat\<rparr>"
  have h1: "''COM'' \<in> cid ` set [sample_country ''COM'' ''Comoros'' ''MANQUE_INFO'']"
    by (simp add: sample_country_def)
  have h2: "fid ?f1 = ''KM''" and h3: "fid ?f2 = ''MYT''" by simp_all
  have h4: "geometry ?f1 \<noteq> geometry ?f2" by simp
  from aliases_collide_without_dedup [OF h1 h2 h3 h4] show ?thesis by simp
qed

section \<open>Drawing\<close>

lemma circle_fill_eq_path_fill: "circle_fill data i = path_fill data i"
  by (simp add: circle_fill_def path_fill_def)

text \<open>
  Claim C7, as stated: one marker for each island identifier on every run of the render
  effect. While the topology has not arrived (or when its fetch has failed) \<open>geoData\<close> is
  \<open>null\<close>, and the effect returns before it draws anything: with a viewport of 800 by
  600 and a record for Mauritius there is no marker at all.
\<close>

theorem no_markers_without_topology:
  "island_markers
     (render_effect sample_d3 None (Some (800, 600)) (800, 600) None
        [sample_country ''MUS'' ''Mauritius'' ''COMPLET''] empty_svg) = []"
  by (simp add: render_effect_def empty_svg_def)

text \<open>
  Claim C7, amended. Whenever a topology document has been loaded, the SVG element is
  mounted and the viewport is non-zero on both axes, the effect draws one marker for
  each of \<open>MUS\<close>, \<open>SYC\<close>, \<open>COM\<close>, \<open>CPV\<close> and \<open>STP\<close>, whatever features the topology holds.
  The circle sits at the image of the island's literal longitude and latitude under the
  projection that the polygons' paths are drawn with, and its fill is the polygon fill
  of the island's identifier; for an identifier that no record carries both fills are
  the default colour.
\<close>

theorem island_markers_when_drawn:
  assumes "width = (if fst dimensions \<noteq> 0 then fst dimensions else fst client)"
    and "height = (if snd dimensions \<noteq> 0 then snd dimensions else snd client)"
    and "width \<noteq> 0" and "height \<noteq> 0"
    and "projection = fitExtent lib ((10, 10), (width - 10, height - 10)) gd"
    and "out = render_effect lib (Some gd) (Some client) dimensions sel data before"
  shows "map m_id (island_markers out) = [''MUS'', ''SYC'', ''COM'', ''CPV'', ''STP'']
       \<and> map (\<lambda>m. (m_cx m, m_cy m)) (island_markers out)
           = map (project lib projection)
               [(57.5522, - 20.3484), (55.4920, - 4.6796), (43.3333, - 11.6450),
                (- 23.0418, 16.0020), (6.7333, 0.1864)]
       \<and> map p_d (paths out) = map (path_d lib projection) (features gd)
       \<and> map m_fill (island_markers out)
           = map (path_fill data) [''MUS'', ''SYC'', ''COM'', ''CPV'', ''STP'']
       \<and> map p_fill (paths out) = map (path_fill data) (map fid (features gd))
       \<and> path_fill (filter (\<lambda>c. cid c \<noteq> i) data) i = ''#f1f5f9''
       \<and> circle_fill (filter (\<lambda>c. cid c \<noteq> i) data) i = ''#f1f5f9''"
proof -
  have out: "out =
     \<lparr>paths = map (\<lambda>f. \<lparr>p_d = path_d lib projection f,
                         p_selected = (sel = Some (fid f)),
                         p_fill = path_fill data (fid f), p_title = fname f\<rparr>) (features gd),
      texts = map (\<lambda>f. \<lparr>t_translate = centroid lib projection f,
                         t_font_size = (if width < 500 then ''6px'' else ''8px''),
                         t_text = (case find (\<lambda>c. cid c = fid f) data of
                                     Some country \<Rightarrow> Flag_name (cid country) (pays country)
                                   | None \<Rightarrow> Name (fname f))\<rparr>) (features gd),
      island_markers =
        map (\<lambda>m. \<lparr>m_id = i_id m,
                  m_cx = fst (project lib projection (coords m)),
                  m_cy = snd (project lib projection (coords m)),
                  m_r = 5, m_fill = circle_fill data (i_id m),
                  m_selected = (sel = Some (i_id m)),
                  m_text_x = fst (project lib projection (coords m)),
                  m_text_y = snd (project lib projection (coords m)) - 8,
                  m_font_size = (if width < 500 then ''5px'' else ''7px''),
                  m_text = Flag_name (i_id m) (i_name m)\<rparr>) manualIslands\<rparr>"
    unfolding assms(6) render_effect_def using assms(1-5)
    by (simp add: Let_def)
  have m1: "map m_id (island_markers out) = [''MUS'', ''SYC'', ''COM'', ''CPV'', ''STP'']"
    by (simp add: out manualIslands_def)
  have m2: "map (\<lambda>m. (m_cx m, m_cy m)) (island_markers out)
           = map (project lib projection)
               [(57.5522, - 20.3484), (55.4920, - 4.6796), (43.3333, - 11.6450),
                (- 23.0418, 16.0020), (6.7333, 0.1864)]"
    by (simp add: out manualIslands_def)
  have m3: "map p_d (paths out) = map (path_d lib projection) (features gd)"
    by (simp add: out comp_def)
  have m4: "map m_fill (island_markers out)
           = map (path_fill data) [''MUS'', ''SYC'', ''COM'', ''CPV'', ''STP'']"
    by (simp add: out manualIslands_def circle_fill_eq_path_fill)
  have m5: "map p_fill (paths out) = map (path_fill data) (map fid (features gd))"
    by (simp add: out comp_def)
  have m6: "path_fill (filter (\<lambda>c. cid c \<noteq> i) data) i = ''#f1f5f9''"
    by (simp add: path_fill_def find_filter_other)
  have m7: "circle_fill (filter (\<lambda>c. cid c \<noteq> i) data) i = ''#f1f5f9''"
    by (simp add: circle_fill_def find_filter_other)
  from m1 m2 m3 m4 m5 m6 m7 show ?thesis by blast
qed

text \<open>A topology without any island (here without any feature at all), a viewport of
  800 by 600 and a record for Mauritius only: five markers, Mauritius in the colour of
  \<open>COMPLET\<close> and the other four in the default colour.\<close>

theorem island_markers_when_drawn_witness:
  "map m_id (island_markers
      (render_effect sample_d3 (Some \<lparr>features = []\<rparr>) (Some (800, 600)) (800, 600) None
         [sample_country ''MUS'' ''Mauritius'' ''COMPLET''] empty_svg))
     = [''MUS'', ''SYC'', ''COM'', ''CPV'', ''STP'']
   \<and> map m_fill (island_markers
      (render_effect sample_d3 (Some \<lparr>features = []\<rparr>) (Some (800, 600)) (800, 600) None
         [sample_country ''MUS'' ''Mauritius'' ''COMPLET''] empty_svg))
     = [''#93c5fd'', ''#f1f5f9'', ''#f1f5f9'', ''#f1f5f9'', ''#f1f5f9'']"
proof -
  let ?out = "render_effect sample_d3 (Some \<lparr>features = []\<rparr>) (Some (800, 600)) (800, 600)
                None [sample_country ''MUS'' ''Mauritius'' ''COMPLET''] empty_svg"
  have h1: "(800::real) = (if fst (800::real, 600::real) \<noteq> 0 then fst (800::real, 600::real)
                           else fst (800::real, 600::real))" by simp
  have h2: "(600::real) = (if snd (800::real, 600::real) \<noteq> 0 then snd (800::real, 600::real)
                           else snd (800::real, 600::real))" by simp
  have h3: "(800::real) \<noteq> 0" and h4: "(600::real) \<noteq> 0" by simp_all
  have h5: "() = fitExtent sample_d3 ((10, 10), (800 - 10, 600 - 10)) \<lparr>features = []\<rparr>"
    by simp
  have h6: "?out = ?out" by simp
  from island_markers_when_drawn [OF h1 h2 h3 h4 h5 h6]
  have "map m_id (island_markers ?out) = [''MUS'', ''SYC'', ''COM'', ''CPV'', ''STP'']"
    and "map m_fill (island_markers ?out)
           = map (path_fill [sample_country ''MUS'' ''Mauritius'' ''COMPLET''])
               [''MUS'', ''SYC'', ''COM'', ''CPV'', ''STP'']"
    by blast+
  then show ?thesis by (simp add: path_fill_def sample_country_def)
qed

lemma drawn_has_markers:
  assumes "\<not> ((fst dimensions = 0 \<and> fst client = 0) \<or> (snd dimensions = 0 \<and> snd client = 0))"
  shows "length (island_markers
           (render_effect lib (Some gd) (Some client) dimensions sel data before)) = 5"
  using assms by (auto simp: render_effect_def Let_def manualIslands_def)

lemma zero_viewport_clears:
  assumes "(fst dimensions = 0 \<and> fst client = 0) \<or> (snd dimensions = 0 \<and> snd client = 0)"
  shows "render_effect lib (Some gd) (Some client) dimensions sel data before = empty_svg"
  using assms by (auto simp: render_effect_def Let_def)

text \<open>
  Claim C9. The viewport size of the effect is, on each axis, the size reported by the
  \<open>ResizeObserver\<close>, or the client size of the SVG element where that report is zero.
  With a topology loaded, the effect leaves the SVG empty (no path, no label, no island
  marker, whatever was drawn before) exactly when this size is zero on either axis: it
  clears the SVG and returns before it builds a projection. As soon as a run of the
  effect sees a non-zero size on both axes it draws. Without a topology the effect does
  not touch the SVG at all.
\<close>

theorem zero_viewport_draws_nothing:
  "(render_effect lib (Some gd) (Some client) dimensions sel data before = empty_svg)
     = ((fst dimensions = 0 \<and> fst client = 0) \<or> (snd dimensions = 0 \<and> snd client = 0))
   \<and> empty_svg = \<lparr>paths = [], texts = [], island_markers = []\<rparr>
   \<and> render_effect lib None svgRef dimensions sel data before = before"
proof -
  have "render_effect lib (Some gd) (Some client) dimensions sel data before \<noteq> empty_svg"
    if "\<not> ((fst dimensions = 0 \<and> fst client = 0) \<or> (snd dimensions = 0 \<and> snd client = 0))"
  proof
    assume "render_effect lib (Some gd) (Some client) dimensions sel data before = empty_svg"
    then have "length (island_markers
        (render_effect lib (Some gd) (Some client) dimensions sel data before)) = 0"
      by (simp add: empty_svg_def)
    with drawn_has_markers [OF that, of lib gd sel data before] show False by simp
  qed
  moreover have "render_effect lib None svgRef dimensions sel data before = before"
    by (simp add: render_effect_def)
  ultimately show ?thesis
    using zero_viewport_clears [of dimensions client lib gd sel data before]
    by (auto simp: empty_svg_def)
qed

text \<open>A viewport of width zero and height 600, over an SVG that held a path.\<close>

theorem zero_viewport_draws_nothing_witness:
  "render_effect sample_d3
     (Some \<lparr>features = [\<lparr>fid = ''SEN'', fname = ''Senegal'', geometry = 7\<rparr>]\<rparr>)
     (Some (0, 600)) (0, 600) None [sample_country ''SEN'' ''Senegal'' ''COMPLET'']
     \<lparr>paths = [\<lparr>p_d = ''SEN'', p_selected = False, p_fill = ''#93c5fd'',
                p_title = ''Senegal''\<rparr>],
      texts = [], island_markers = []\<rparr>
   = \<lparr>paths = [], texts = [], island_markers = []\<rparr>"
  using zero_viewport_draws_nothing
    [of sample_d3 "\<lparr>features = [\<lparr>fid = ''SEN'', fname = ''Senegal'', geometry = 7\<rparr>]\<rparr>"
        "(0, 600)" "(0, 600)" None "[sample_country ''SEN'' ''Senegal'' ''COMPLET'']"
        "\<lparr>paths = [\<lparr>p_d = ''SEN'', p_selected = False, p_fill = ''#93c5fd'',
                p_title = ''Senegal''\<rparr>], texts = [], island_markers = []\<rparr>"]
  by simp

section \<open>Statistics\<close>



end
